theory Spec2Isabelle
  imports Main "HOL-Library.Sublist"
begin

section \<open>The route guard: \<open>src/components/OnboardingProtectedRoute.tsx\<close>\<close>

text \<open>
  The guard is a React function component. What it renders depends on its props, on the
  values it reads from the authentication context (\<open>useAuth\<close>), on the router's current
  location (\<open>useLocation\<close>) and on one piece of local state, \<open>checking\<close>. The model
  is the render function with all four made explicit arguments.
\<close>

text \<open>The signed-in principal held by the authentication context.\<close>

record user =
  user_id :: string
  email :: string

text \<open>The fields of \<open>useAuth()\<close> that the guard reads as values.\<close>

record auth =
  user :: "user option"
  loading :: bool
  onboardingCompleted :: bool

text \<open>The router's location object.\<close>

record location =
  pathname :: string
  search :: string
  hash :: string

text \<open>The object passed as \<open>state={{ from: location }}\<close>.\<close>

datatype nav_state = From location

text \<open>
  The props. \<open>requireOnboarding?: boolean\<close> is optional: \<open>None\<close> is a route element
  that does not pass it.
\<close>

record 'c props =
  children :: 'c
  requireOnboarding :: "bool option"

text \<open>
  What the component returns: the spinner, a \<open>Navigate\<close> element with its \<open>to\<close>,
  \<open>state\<close> and \<open>replace\<close> attributes, or the fragment holding the children.
\<close>

datatype 'c element =
    Loader
  | Navigate string "nav_state option" bool
  | Fragment 'c

text \<open>The destructuring default \<open>requireOnboarding = true\<close>.\<close>

definition requireOnboarding_param :: "'c props \<Rightarrow> bool" where
  "requireOnboarding_param p = (case requireOnboarding p of None \<Rightarrow> True | Some b \<Rightarrow> b)"

text \<open>
  The render function, test by test in the source's order. The source nests the path test
  inside the test of \<open>requireOnboarding && !onboardingCompleted\<close> with no \<open>else\<close>, so
  control falls through to the next statement when either fails: the two are one
  conjunction here.
\<close>

definition OnboardingProtectedRoute ::
  "'c props \<Rightarrow> auth \<Rightarrow> bool \<Rightarrow> location \<Rightarrow> 'c element" where
  "OnboardingProtectedRoute p a checking loc =
     (if loading a \<or> checking then Loader
      else if user a = None then Navigate ''/auth'' (Some (From loc)) True
      else if requireOnboarding_param p \<and> \<not> onboardingCompleted a
              \<and> pathname loc \<noteq> ''/onboarding''
        then Navigate ''/onboarding'' (Some (From loc)) True
      else if pathname loc = ''/onboarding'' \<and> onboardingCompleted a
        then Navigate ''/'' None True
      else Fragment (children p))"

text \<open>
  The effect that clears \<open>checking\<close>. It awaits \<open>checkOnboardingStatus()\<close> when a user is
  present; \<open>resolved\<close> says whether that promise resolved (a rejection leaves the
  \<open>setChecking(false)\<close> after it unexecuted). The result is the new value of \<open>checking\<close>.
\<close>

definition check :: "auth \<Rightarrow> bool \<Rightarrow> bool \<Rightarrow> bool" where
  "check a resolved checking =
     (if user a \<noteq> None \<and> \<not> loading a then (if resolved then False else checking)
      else if \<not> loading a then False
      else checking)"

section \<open>The client portal: \<open>src/pages/ClientPortal.tsx\<close>\<close>

text \<open>
  The portal keeps its server data in a query cache (the \<open>useQuery\<close> entries of the
  page, addressed by query key), sends messages through a mutation object and uploads
  files through an async handler. The model is a record of everything those handlers
  read or write, and one state transformer per handler. An asynchronous handler is split
  where it awaits the backend: the part that runs up to the request, and the part that
  runs when the request has settled, which takes the outcome as an argument.
\<close>

subsection \<open>Data\<close>

text \<open>
  Modelled from the spec: the message type of \<open>services/messageService\<close>, which is not
  among the sources. The portal code passes messages on without reading a field.
\<close>

record message =
  message_id :: string
  senderIsClient :: bool
  content :: string
  createdAt :: nat

text \<open>
  Modelled from the spec: the file record of \<open>services/fileService\<close>, which is not among
  the sources. The portal reads \<open>file.clientId\<close> only.
\<close>

record FileItem =
  file_id :: string
  file_clientId :: string

text \<open>The browser's \<open>File\<close> handed to the upload handler; the portal reads \<open>file.name\<close>.\<close>

record File =
  name :: string
  file_size :: nat

text \<open>A value thrown or rejected with: an \<open>Error\<close> with its message, or something else.\<close>

datatype thrown = Error string | NonError

text \<open>How an awaited promise settles.\<close>

datatype 'a settled = Resolved 'a | Rejected thrown

text \<open>The argument of \<open>toast\<close>.\<close>

record toast =
  title :: string
  description :: string
  variant :: "string option"

text \<open>The calls the portal makes to the two services, in the order they are issued.\<close>

datatype request =
    SendMessage string string bool
  | UploadFile File string
  | GetMessagesForClient string
  | GetAllFiles

text \<open>The payload of a \<open>postgres_changes\<close> event.\<close>

record payload =
  eventType :: string
  new_row :: "message option"
  old_row :: "message option"

subsection \<open>The query cache\<close>

text \<open>
  One entry per query key: the data of the last successful fetch, the invalidation mark
  and whether a fetch is under way. Every entry of the model is a query that the mounted
  page observes.
\<close>

datatype cached = Messages "message list" | Files "FileItem list"

datatype fetch_status = F_idle | F_fetching

record query =
  data :: "cached option"
  isInvalidated :: bool
  fetchStatus :: fetch_status

type_synonym query_key = "string list"

type_synonym QueryClient = "query_key \<rightharpoonup> query"

text \<open>
  \<open>queryClient.invalidateQueries({ queryKey })\<close> on the cache: every entry whose key
  starts with the given key is marked invalidated and, being observed, is fetching
  afterwards. The entry's data stays as it is until a fetch settles.
\<close>

definition invalidateQueries :: "query_key \<Rightarrow> QueryClient \<Rightarrow> QueryClient" where
  "invalidateQueries k qc =
     (\<lambda>k'. if prefix k k'
           then map_option (\<lambda>q. q\<lparr>isInvalidated := True, fetchStatus := F_fetching\<rparr>) (qc k')
           else qc k')"

text \<open>A fetch for a key settles with a result: the entry's data is replaced by it.\<close>

definition fetch_settled :: "query_key \<Rightarrow> cached \<Rightarrow> QueryClient \<Rightarrow> QueryClient" where
  "fetch_settled k d qc =
     (case qc k of
        None \<Rightarrow> qc
      | Some q \<Rightarrow> qc(k \<mapsto> q\<lparr>data := Some d, isInvalidated := False, fetchStatus := F_idle\<rparr>))"

subsection \<open>The page state and its handlers\<close>

datatype mutation_status = M_idle | M_pending | M_success | M_error

record portal =
  clientId :: string
  queryClient :: QueryClient
  sendMessageMutation :: mutation_status
  toasts :: "toast list"
  console :: "string list"
  requests :: "request list"

definition messagesKey :: "portal \<Rightarrow> query_key" where
  "messagesKey s = [''client-messages'', clientId s]"

definition filesKey :: "portal \<Rightarrow> query_key" where
  "filesKey s = [''client-files'', clientId s]"

text \<open>
  The page as first mounted: both queries without data and fetching, their two
  \<open>queryFn\<close> calls issued.
\<close>

definition ClientPortal_init :: portal where
  "ClientPortal_init =
     \<lparr>clientId = ''client-id-1'',
      queryClient =
        [[''client-messages'', ''client-id-1''] \<mapsto>
           \<lparr>data = None, isInvalidated = False, fetchStatus = F_fetching\<rparr>,
         [''client-files'', ''client-id-1''] \<mapsto>
           \<lparr>data = None, isInvalidated = False, fetchStatus = F_fetching\<rparr>],
      sendMessageMutation = M_idle,
      toasts = [], console = [],
      requests = [GetMessagesForClient ''client-id-1'', GetAllFiles]\<rparr>"

text \<open>\<open>const { data: messages = [] } = useQuery(...)\<close>: the list handed to \<open>MessageList\<close>.\<close>

definition messages :: "portal \<Rightarrow> message list" where
  "messages s =
     (case queryClient s (messagesKey s) of
        Some q \<Rightarrow> (case data q of Some (Messages ms) \<Rightarrow> ms | _ \<Rightarrow> [])
      | None \<Rightarrow> [])"

text \<open>\<open>const { data: files = [] } = useQuery(...)\<close>: the list handed to \<open>FileList\<close>.\<close>

definition files :: "portal \<Rightarrow> FileItem list" where
  "files s =
     (case queryClient s (filesKey s) of
        Some q \<Rightarrow> (case data q of Some (Files fs) \<Rightarrow> fs | _ \<Rightarrow> [])
      | None \<Rightarrow> [])"

text \<open>\<open>sendMessageMutation.isPending\<close>, passed to \<open>MessageInput\<close> as \<open>disabled\<close>.\<close>

definition isPending :: "portal \<Rightarrow> bool" where
  "isPending s = (sendMessageMutation s = M_pending)"

text \<open>
  The page's two \<open>useQuery\<close> calls: the key, and the service call its \<open>queryFn\<close>
  makes when the query is fetched.
\<close>

definition queries :: "portal \<Rightarrow> (query_key \<times> request) list" where
  "queries s =
     [(messagesKey s, GetMessagesForClient (clientId s)),
      (filesKey s, GetAllFiles)]"

text \<open>
  Whether refetching an entry runs its \<open>queryFn\<close> anew. An idle query is fetched. A
  query that is fetching and already has data has that fetch cancelled and a new one
  started. A query that is fetching and has no data yet (its first load) keeps the fetch
  under way, and the refetch joins it.
\<close>

definition starts_fetch :: "query \<Rightarrow> bool" where
  "starts_fetch q = (fetchStatus q = F_idle \<or> data q \<noteq> None)"

text \<open>The service calls that invalidating a key causes, in the order of \<open>queries\<close>.\<close>

definition refetchQueries :: "query_key \<Rightarrow> portal \<Rightarrow> request list" where
  "refetchQueries k s =
     map snd
       (filter
          (\<lambda>(k', r). prefix k k' \<and>
             (case queryClient s k' of Some q \<Rightarrow> starts_fetch q | None \<Rightarrow> False))
          (queries s))"

text \<open>
  \<open>queryClient.invalidateQueries({ queryKey })\<close> as a step of the page: the matching
  entries are marked, and the fetches that start are issued.
\<close>

definition queryClient_invalidateQueries :: "query_key \<Rightarrow> portal \<Rightarrow> portal" where
  "queryClient_invalidateQueries k s =
     s\<lparr>queryClient := invalidateQueries k (queryClient s),
       requests := requests s @ refetchQueries k s\<rparr>"

text \<open>The messages query's fetch settles with what \<open>getMessagesForClient\<close> returned.\<close>

definition messages_fetched :: "message list \<Rightarrow> portal \<Rightarrow> portal" where
  "messages_fetched ms s =
     s\<lparr>queryClient := fetch_settled (messagesKey s) (Messages ms) (queryClient s)\<rparr>"

text \<open>
  The files query's fetch settles: its \<open>queryFn\<close> keeps, of all files the service
  returned, those of this client.
\<close>

definition files_fetched :: "FileItem list \<Rightarrow> portal \<Rightarrow> portal" where
  "files_fetched allFiles s =
     s\<lparr>queryClient :=
         fetch_settled (filesKey s)
           (Files (filter (\<lambda>f. file_clientId f = clientId s) allFiles)) (queryClient s)\<rparr>"

text \<open>
  \<open>sendMessageMutation.mutate(content)\<close>: the mutation becomes pending and its
  \<open>mutationFn\<close> calls \<open>sendMessage(clientId, content, false)\<close>. The mutation has no
  \<open>onMutate\<close> option, so nothing else runs before the request settles.
\<close>

definition mutate :: "string \<Rightarrow> portal \<Rightarrow> portal" where
  "mutate c s =
     s\<lparr>sendMessageMutation := M_pending,
       requests := requests s @ [SendMessage (clientId s) c False]\<rparr>"




text \<open>\<open>handleFileUpload\<close> up to its \<open>await\<close>: the call of \<open>fileService.uploadFile\<close>.\<close>

definition handleFileUpload_call :: "File \<Rightarrow> portal \<Rightarrow> portal" where
  "handleFileUpload_call f s = s\<lparr>requests := requests s @ [UploadFile f (clientId s)]\<rparr>"

text \<open>The \<open>catch\<close> block of \<open>handleFileUpload\<close>.\<close>

definition handleFileUpload_catch :: "thrown \<Rightarrow> portal \<Rightarrow> portal" where
  "handleFileUpload_catch e s =
     s\<lparr>console := console s @ [''Error uploading file:''],
       toasts := toasts s @
         [\<lparr>title = ''Upload failed'',
           description = (case e of Error msg \<Rightarrow> msg | NonError \<Rightarrow> ''Failed to upload file''),
           variant = Some ''destructive''\<rparr>]\<rparr>"

text \<open>
  \<open>handleFileUpload\<close> after its \<open>await\<close>. The service resolves with the uploaded file's
  record or with \<open>null\<close>, or rejects; \<open>null\<close> is turned into a thrown \<open>Error\<close> inside the
  \<open>try\<close>.
\<close>

definition handleFileUpload_resume :: "File \<Rightarrow> FileItem option settled \<Rightarrow> portal \<Rightarrow> portal" where
  "handleFileUpload_resume f r s =
     (case r of
        Resolved (Some uploadedFile) \<Rightarrow>
          (queryClient_invalidateQueries (filesKey s) s)
           \<lparr>toasts := toasts s @
              [\<lparr>title = ''File uploaded'',
                description = name f @ '' has been uploaded successfully.'',
                variant = None\<rparr>]\<rparr>
      | Resolved None \<Rightarrow> handleFileUpload_catch (Error ''File upload failed'') s
      | Rejected e \<Rightarrow> handleFileUpload_catch e s)"

definition handleFileUpload :: "File \<Rightarrow> FileItem option settled \<Rightarrow> portal \<Rightarrow> portal" where
  "handleFileUpload f r s = handleFileUpload_resume f r (handleFileUpload_call f s)"

text \<open>
  The callback of the realtime subscription on table \<open>client_messages\<close>, registered for
  every event type (\<open>event: '*'\<close>) of this client's rows.
\<close>

definition on_postgres_changes :: "payload \<Rightarrow> portal \<Rightarrow> portal" where
  "on_postgres_changes p s = queryClient_invalidateQueries (messagesKey s) s"

subsection \<open>The message service\<close>

text \<open>
  Modelled from the spec: the backend behind \<open>services/messageService\<close>, which is not
  among the sources. It holds, per participant, the ordered sequence of that
  participant's messages, oldest first.
\<close>

type_synonym backend = "string \<Rightarrow> message list"




section \<open>Properties of the route guard\<close>

lemma check_settles:
  "\<not> loading a \<Longrightarrow> resolved \<Longrightarrow> check a resolved checking = False"
  by (simp add: check_def)

text \<open>
  Claim C1. Once the guard is past its loading branch (neither \<open>loading\<close> nor
  \<open>checking\<close>), an absent user is always sent to \<open>/auth\<close>, whatever the onboarding
  flag, the \<open>requireOnboarding\<close> prop and the requested location are, and the redirect's
  state holds the requested location under \<open>from\<close>.
\<close>

theorem absent_user_redirects_to_auth:
  assumes "user a = None" and "\<not> loading a" and "\<not> checking"
  shows "OnboardingProtectedRoute p a checking loc = Navigate ''/auth'' (Some (From loc)) True"
  using assms by (simp add: OnboardingProtectedRoute_def)

theorem absent_user_redirects_to_auth_witness:
  "OnboardingProtectedRoute \<lparr>children = ''Kanban'', requireOnboarding = None\<rparr>
     \<lparr>user = None, loading = False, onboardingCompleted = True\<rparr> False
     \<lparr>pathname = ''/kanban'', search = ''?tab=1'', hash = []\<rparr>
   = Navigate ''/auth''
       (Some (From \<lparr>pathname = ''/kanban'', search = ''?tab=1'', hash = []\<rparr>)) True"
  using absent_user_redirects_to_auth
    [of "\<lparr>user = None, loading = False, onboardingCompleted = True\<rparr>" False
        "\<lparr>children = ''Kanban'', requireOnboarding = None\<rparr>"
        "\<lparr>pathname = ''/kanban'', search = ''?tab=1'', hash = []\<rparr>"]
  by simp

text \<open>
  Claim C2. With a user present and the guard past its loading branch, a route that
  passes \<open>requireOnboarding={true}\<close> and an onboarding flag that is false give the
  children when the requested path is \<open>/onboarding\<close> itself, and otherwise a redirect
  to \<open>/onboarding\<close> whose state holds the requested location under \<open>from\<close>.
\<close>

theorem incomplete_onboarding_gate:
  assumes "user a = Some u" and "\<not> loading a" and "\<not> checking"
    and "requireOnboarding p = Some True" and "\<not> onboardingCompleted a"
  shows "OnboardingProtectedRoute p a checking loc =
           (if pathname loc = ''/onboarding'' then Fragment (children p)
            else Navigate ''/onboarding'' (Some (From loc)) True)"
  using assms by (simp add: OnboardingProtectedRoute_def requireOnboarding_param_def)

theorem incomplete_onboarding_gate_witness:
  "OnboardingProtectedRoute \<lparr>children = ''Kanban'', requireOnboarding = Some True\<rparr>
     \<lparr>user = Some \<lparr>user_id = ''u1'', email = ''a@b.c''\<rparr>, loading = False,
      onboardingCompleted = False\<rparr> False
     \<lparr>pathname = ''/kanban'', search = [], hash = []\<rparr>
   = Navigate ''/onboarding''
       (Some (From \<lparr>pathname = ''/kanban'', search = [], hash = []\<rparr>)) True"
  using incomplete_onboarding_gate
    [of "\<lparr>user = Some \<lparr>user_id = ''u1'', email = ''a@b.c''\<rparr>, loading = False,
          onboardingCompleted = False\<rparr>"
        "\<lparr>user_id = ''u1'', email = ''a@b.c''\<rparr>" False
        "\<lparr>children = ''Kanban'', requireOnboarding = Some True\<rparr>"
        "\<lparr>pathname = ''/kanban'', search = [], hash = []\<rparr>"]
  by simp

text \<open>
  Claim C3, as the specification states it: with a user present, a route passing
  \<open>requireOnboarding={false}\<close> always renders its children. The guard's last test does
  not look at \<open>requireOnboarding\<close>, so this fails on \<open>/onboarding\<close> once onboarding is
  completed: the guard redirects to \<open>/\<close>.
\<close>

theorem unrequired_route_counterexample:
  "OnboardingProtectedRoute \<lparr>children = ''Onboarding'', requireOnboarding = Some False\<rparr>
     \<lparr>user = Some \<lparr>user_id = ''u1'', email = ''a@b.c''\<rparr>, loading = False,
      onboardingCompleted = True\<rparr> False
     \<lparr>pathname = ''/onboarding'', search = [], hash = []\<rparr>
   = Navigate ''/'' None True"
  by (simp add: OnboardingProtectedRoute_def)

text \<open>
  Claim C3, amended. With a user present and the guard past its loading branch, a route
  passing \<open>requireOnboarding={false}\<close> is never redirected to \<open>/onboarding\<close>; it is
  redirected to \<open>/\<close> exactly when the requested path is \<open>/onboarding\<close> and onboarding
  is completed, and renders its children in every other case.
\<close>

theorem unrequired_route_gate:
  assumes "user a = Some u" and "\<not> loading a" and "\<not> checking"
    and "requireOnboarding p = Some False"
  shows "OnboardingProtectedRoute p a checking loc =
           (if pathname loc = ''/onboarding'' \<and> onboardingCompleted a
            then Navigate ''/'' None True
            else Fragment (children p))"
  using assms by (simp add: OnboardingProtectedRoute_def requireOnboarding_param_def)

theorem unrequired_route_gate_witness:
  "OnboardingProtectedRoute \<lparr>children = ''Auth'', requireOnboarding = Some False\<rparr>
     \<lparr>user = Some \<lparr>user_id = ''u1'', email = ''a@b.c''\<rparr>, loading = False,
      onboardingCompleted = False\<rparr> False
     \<lparr>pathname = ''/kanban'', search = [], hash = []\<rparr>
   = Fragment ''Auth''"
  using unrequired_route_gate
    [of "\<lparr>user = Some \<lparr>user_id = ''u1'', email = ''a@b.c''\<rparr>, loading = False,
          onboardingCompleted = False\<rparr>"
        "\<lparr>user_id = ''u1'', email = ''a@b.c''\<rparr>" False
        "\<lparr>children = ''Auth'', requireOnboarding = Some False\<rparr>"
        "\<lparr>pathname = ''/kanban'', search = [], hash = []\<rparr>"]
  by simp

text \<open>
  Claim C4. With a user present, the guard past its loading branch and onboarding
  completed, a request for \<open>/onboarding\<close> is redirected to \<open>/\<close> (with no state), and a
  request for any other path, \<open>/kanban\<close> among them, renders the children. Neither
  depends on the \<open>requireOnboarding\<close> prop.
\<close>

theorem completed_onboarding_gate:
  assumes "user a = Some u" and "\<not> loading a" and "\<not> checking"
    and "onboardingCompleted a"
  shows "(pathname loc = ''/onboarding'' \<longrightarrow>
            OnboardingProtectedRoute p a checking loc = Navigate ''/'' None True)
       \<and> (pathname loc = ''/kanban'' \<longrightarrow>
            OnboardingProtectedRoute p a checking loc = Fragment (children p))
       \<and> (pathname loc \<noteq> ''/onboarding'' \<longrightarrow>
            OnboardingProtectedRoute p a checking loc = Fragment (children p))"
  using assms by (simp add: OnboardingProtectedRoute_def)

theorem completed_onboarding_gate_witness:
  "OnboardingProtectedRoute \<lparr>children = ''Kanban'', requireOnboarding = None\<rparr>
     \<lparr>user = Some \<lparr>user_id = ''u1'', email = ''a@b.c''\<rparr>, loading = False,
      onboardingCompleted = True\<rparr> False
     \<lparr>pathname = ''/onboarding'', search = [], hash = []\<rparr>
   = Navigate ''/'' None True
   \<and> OnboardingProtectedRoute \<lparr>children = ''Kanban'', requireOnboarding = None\<rparr>
     \<lparr>user = Some \<lparr>user_id = ''u1'', email = ''a@b.c''\<rparr>, loading = False,
      onboardingCompleted = True\<rparr> False
     \<lparr>pathname = ''/kanban'', search = [], hash = []\<rparr>
   = Fragment ''Kanban''"
  using completed_onboarding_gate
    [of "\<lparr>user = Some \<lparr>user_id = ''u1'', email = ''a@b.c''\<rparr>, loading = False,
          onboardingCompleted = True\<rparr>"
        "\<lparr>user_id = ''u1'', email = ''a@b.c''\<rparr>" False
        "\<lparr>pathname = ''/onboarding'', search = [], hash = []\<rparr>"
        "\<lparr>children = ''Kanban'', requireOnboarding = None\<rparr>"]
    completed_onboarding_gate
    [of "\<lparr>user = Some \<lparr>user_id = ''u1'', email = ''a@b.c''\<rparr>, loading = False,
          onboardingCompleted = True\<rparr>"
        "\<lparr>user_id = ''u1'', email = ''a@b.c''\<rparr>" False
        "\<lparr>pathname = ''/kanban'', search = [], hash = []\<rparr>"
        "\<lparr>children = ''Kanban'', requireOnboarding = None\<rparr>"]
  by simp

text \<open>
  Claim C9. While \<open>loading\<close> or \<open>checking\<close> is true the component returns the spinner:
  none of the tests on the user, the onboarding flag or the path is reached, so the
  result is neither a \<open>Navigate\<close> element nor the children, whatever the other inputs
  are.
\<close>

theorem settling_shows_loader:
  assumes "loading a \<or> checking"
  shows "OnboardingProtectedRoute p a checking loc = Loader
       \<and> (\<forall>to st r. OnboardingProtectedRoute p a checking loc \<noteq> Navigate to st r)
       \<and> (\<forall>c. OnboardingProtectedRoute p a checking loc \<noteq> Fragment c)"
  using assms by (auto simp add: OnboardingProtectedRoute_def)

theorem settling_shows_loader_witness:
  "OnboardingProtectedRoute \<lparr>children = ''Kanban'', requireOnboarding = None\<rparr>
     \<lparr>user = None, loading = False, onboardingCompleted = False\<rparr> True
     \<lparr>pathname = ''/kanban'', search = [], hash = []\<rparr>
   = Loader"
  using settling_shows_loader
    [of "\<lparr>user = None, loading = False, onboardingCompleted = False\<rparr>" True
        "\<lparr>children = ''Kanban'', requireOnboarding = None\<rparr>"
        "\<lparr>pathname = ''/kanban'', search = [], hash = []\<rparr>"]
  by simp

text \<open>
  Claim C10. A route element that does not pass \<open>requireOnboarding\<close> is guarded, on
  every input, exactly as one that passes \<open>requireOnboarding={true}\<close>. In particular it
  is gated: with a user present, the guard past its loading branch, onboarding not
  completed and a requested path other than \<open>/onboarding\<close>, the route is redirected to
  \<open>/onboarding\<close> with the requested location, where the same route passing
  \<open>requireOnboarding={false}\<close> would render its children.
\<close>

theorem omitted_requireOnboarding_is_gated:
  assumes "requireOnboarding p = None"
  shows "OnboardingProtectedRoute p a checking loc
           = OnboardingProtectedRoute (p\<lparr>requireOnboarding := Some True\<rparr>) a checking loc
       \<and> (user a \<noteq> None \<and> \<not> loading a \<and> \<not> checking \<and> \<not> onboardingCompleted a
            \<and> pathname loc \<noteq> ''/onboarding'' \<longrightarrow>
            OnboardingProtectedRoute p a checking loc
              = Navigate ''/onboarding'' (Some (From loc)) True
            \<and> OnboardingProtectedRoute (p\<lparr>requireOnboarding := Some False\<rparr>) a checking loc
              = Fragment (children p))"
  using assms by (simp add: OnboardingProtectedRoute_def requireOnboarding_param_def)

theorem omitted_requireOnboarding_is_gated_witness:
  "OnboardingProtectedRoute \<lparr>children = ''Kanban'', requireOnboarding = None\<rparr>
     \<lparr>user = Some \<lparr>user_id = ''u1'', email = ''a@b.c''\<rparr>, loading = False,
      onboardingCompleted = False\<rparr> False
     \<lparr>pathname = ''/kanban'', search = [], hash = []\<rparr>
   = Navigate ''/onboarding''
       (Some (From \<lparr>pathname = ''/kanban'', search = [], hash = []\<rparr>)) True"
proof -
  have omitted: "requireOnboarding \<lparr>children = ''Kanban'', requireOnboarding = None\<rparr> = None"
    by simp
  from omitted_requireOnboarding_is_gated
    [OF omitted,
     of "\<lparr>user = Some \<lparr>user_id = ''u1'', email = ''a@b.c''\<rparr>, loading = False,
          onboardingCompleted = False\<rparr>" False
        "\<lparr>pathname = ''/kanban'', search = [], hash = []\<rparr>",
     THEN conjunct2]
  show ?thesis by simp
qed

section \<open>Properties of the client portal\<close>

lemma invalidateQueries_at:
  "invalidateQueries k qc k =
     map_option (\<lambda>q. q\<lparr>isInvalidated := True, fetchStatus := F_fetching\<rparr>) (qc k)"
  by (simp add: invalidateQueries_def)

lemma messages_invalidate:
  "messages (queryClient_invalidateQueries k s) = messages s"
  by (cases "queryClient s (messagesKey s)")
     (simp_all add: queryClient_invalidateQueries_def messages_def messagesKey_def
        invalidateQueries_def)

lemma refetch_messages:
  "queryClient s (messagesKey s) = Some q \<Longrightarrow>
   refetchQueries (messagesKey s) s
     = (if starts_fetch q then [GetMessagesForClient (clientId s)] else [])"
  by (simp add: refetchQueries_def queries_def messagesKey_def filesKey_def)

text \<open>A page whose one message is loaded.\<close>

lemma loaded_messages_query:
  "queryClient
     (messages_fetched
        [\<lparr>message_id = ''m1'', senderIsClient = True, content = ''first'', createdAt = 10\<rparr>]
        ClientPortal_init)
     (messagesKey
        (messages_fetched
           [\<lparr>message_id = ''m1'', senderIsClient = True, content = ''first'', createdAt = 10\<rparr>]
           ClientPortal_init))
   = Some \<lparr>data = Some (Messages
              [\<lparr>message_id = ''m1'', senderIsClient = True, content = ''first'',
                createdAt = 10\<rparr>]),
           isInvalidated = False, fetchStatus = F_idle\<rparr>"
  by (simp add: ClientPortal_init_def messagesKey_def messages_fetched_def fetch_settled_def)

text \<open>
  Claim C5, as the specification states it: a sent message is rendered optimistically,
  that is, it is in the list the page shows as soon as it is submitted and before the
  server has answered. On a page whose message list is loaded and empty, submitting
  \<open>hello\<close> leaves the shown list empty: no entry with that content is in it.
\<close>

theorem optimistic_message_counterexample:
  "messages (mutate ''hello'' (messages_fetched [] ClientPortal_init)) = []
   \<and> ''hello'' \<notin> set (map content
         (messages (mutate ''hello'' (messages_fetched [] ClientPortal_init))))"
  by (simp add: messages_def mutate_def messages_fetched_def ClientPortal_init_def
        messagesKey_def fetch_settled_def)

text \<open>
  Claim C5, amended. Submitting a message puts the mutation in its pending state at once
  and issues one \<open>sendMessage\<close> request; the pending state is what the page reflects (it
  disables the input), while the query cache, and with it the shown message list, is
  unchanged until the server has answered. Starting a file upload issues one
  \<open>uploadFile\<close> request and changes nothing the page shows: the shown files, the shown
  messages, the toasts and the pending flag are as before.
\<close>

theorem submit_before_confirmation:
  "isPending (mutate c s)
   \<and> requests (mutate c s) = requests s @ [SendMessage (clientId s) c False]
   \<and> queryClient (mutate c s) = queryClient s
   \<and> messages (mutate c s) = messages s
   \<and> requests (handleFileUpload_call f s) = requests s @ [UploadFile f (clientId s)]
   \<and> queryClient (handleFileUpload_call f s) = queryClient s
   \<and> files (handleFileUpload_call f s) = files s
   \<and> messages (handleFileUpload_call f s) = messages s
   \<and> toasts (handleFileUpload_call f s) = toasts s
   \<and> isPending (handleFileUpload_call f s) = isPending s"
  by (simp add: isPending_def mutate_def handleFileUpload_call_def messages_def files_def
        messagesKey_def filesKey_def)

text \<open>
  Claim C6, as the specification states it: every event on the stream invalidates the
  cache entry of the conversation and triggers a re-fetch. On a page whose files are
  loaded and whose messages are in their first load, an event starts no fetch at all (the
  requests issued are the same as before), and the files query of the conversation is as
  it was: not invalidated, idle, its data in place.
\<close>

theorem change_event_counterexample:
  "requests
     (on_postgres_changes
        \<lparr>eventType = ''INSERT'',
         new_row = Some \<lparr>message_id = ''m1'', senderIsClient = False, content = ''hi'',
                         createdAt = 10\<rparr>,
         old_row = None\<rparr>
        (files_fetched [\<lparr>file_id = ''f1'', file_clientId = ''client-id-1''\<rparr>]
           ClientPortal_init))
   = requests
       (files_fetched [\<lparr>file_id = ''f1'', file_clientId = ''client-id-1''\<rparr>]
          ClientPortal_init)
   \<and> queryClient
       (on_postgres_changes
          \<lparr>eventType = ''INSERT'',
           new_row = Some \<lparr>message_id = ''m1'', senderIsClient = False, content = ''hi'',
                           createdAt = 10\<rparr>,
           old_row = None\<rparr>
          (files_fetched [\<lparr>file_id = ''f1'', file_clientId = ''client-id-1''\<rparr>]
             ClientPortal_init))
       [''client-files'', ''client-id-1'']
     = Some \<lparr>data = Some (Files [\<lparr>file_id = ''f1'', file_clientId = ''client-id-1''\<rparr>]),
             isInvalidated = False, fetchStatus = F_idle\<rparr>"
  by (simp add: on_postgres_changes_def queryClient_invalidateQueries_def
        invalidateQueries_def refetchQueries_def queries_def starts_fetch_def
        messagesKey_def filesKey_def files_fetched_def fetch_settled_def
        ClientPortal_init_def)

text \<open>
  Claim C6, amended. The realtime callback does the same for every payload. It marks the
  messages query of this client invalidated and leaves the entry's data, hence the shown
  messages, exactly as they were: nothing of the payload reaches the cache. It starts a
  new fetch of the messages when that query is idle or already has data; while the first
  load is under way it starts none and the fetch under way goes on. The files query of
  the same client is not touched.
\<close>

theorem change_event_invalidates_messages:
  assumes "queryClient s (messagesKey s) = Some q"
  shows "on_postgres_changes p s = on_postgres_changes p' s
       \<and> queryClient (on_postgres_changes p s) (messagesKey s)
           = Some (q\<lparr>isInvalidated := True, fetchStatus := F_fetching\<rparr>)
       \<and> messages (on_postgres_changes p s) = messages s
       \<and> requests (on_postgres_changes p s)
           = requests s @ (if starts_fetch q then [GetMessagesForClient (clientId s)] else [])
       \<and> queryClient (on_postgres_changes p s) (filesKey s) = queryClient s (filesKey s)"
proof -
  have "requests (on_postgres_changes p s) = requests s @ refetchQueries (messagesKey s) s"
    by (simp add: on_postgres_changes_def queryClient_invalidateQueries_def)
  moreover have "queryClient (on_postgres_changes p s) (filesKey s) = queryClient s (filesKey s)"
    by (simp add: on_postgres_changes_def queryClient_invalidateQueries_def
          invalidateQueries_def messagesKey_def filesKey_def)
  moreover have "queryClient (on_postgres_changes p s) (messagesKey s)
                   = Some (q\<lparr>isInvalidated := True, fetchStatus := F_fetching\<rparr>)"
    using assms
    by (simp add: on_postgres_changes_def queryClient_invalidateQueries_def
          invalidateQueries_at)
  ultimately show ?thesis
    using assms
    by (simp add: refetch_messages) (simp add: on_postgres_changes_def messages_invalidate)
qed

theorem change_event_invalidates_messages_witness:
  "queryClient
     (on_postgres_changes
        \<lparr>eventType = ''UPDATE'',
         new_row = Some \<lparr>message_id = ''m1'', senderIsClient = True, content = ''edited'',
                         createdAt = 10\<rparr>,
         old_row = Some \<lparr>message_id = ''m1'', senderIsClient = True, content = ''first'',
                         createdAt = 10\<rparr>\<rparr>
        (messages_fetched
           [\<lparr>message_id = ''m1'', senderIsClient = True, content = ''first'', createdAt = 10\<rparr>]
           ClientPortal_init))
     [''client-messages'', ''client-id-1'']
   = Some \<lparr>data = Some (Messages
              [\<lparr>message_id = ''m1'', senderIsClient = True, content = ''first'',
                createdAt = 10\<rparr>]),
           isInvalidated = True, fetchStatus = F_fetching\<rparr>
   \<and> requests
       (on_postgres_changes
          \<lparr>eventType = ''UPDATE'',
           new_row = Some \<lparr>message_id = ''m1'', senderIsClient = True, content = ''edited'',
                           createdAt = 10\<rparr>,
           old_row = Some \<lparr>message_id = ''m1'', senderIsClient = True, content = ''first'',
                           createdAt = 10\<rparr>\<rparr>
          (messages_fetched
             [\<lparr>message_id = ''m1'', senderIsClient = True, content = ''first'', createdAt = 10\<rparr>]
             ClientPortal_init))
     = [GetMessagesForClient ''client-id-1'', GetAllFiles, GetMessagesForClient ''client-id-1'']"
  using change_event_invalidates_messages [OF loaded_messages_query]
  by (simp add: starts_fetch_def)
     (simp add: messagesKey_def messages_fetched_def ClientPortal_init_def)



text \<open>
  Claim C8. When the upload request resolves with \<open>null\<close> or rejects, the handler leaves
  the query cache as it was (the files query is not invalidated and the shown files are
  the same, as they were while the request was under way), appends one destructive
  \<open>Upload failed\<close> toast carrying the error's message, and has issued the one
  \<open>uploadFile\<close> request and no further one.
\<close>

theorem upload_failure_reported:
  assumes "r = Resolved None \<or> r = Rejected e"
  shows "queryClient (handleFileUpload f r s) = queryClient s
       \<and> files (handleFileUpload f r s) = files s
       \<and> files (handleFileUpload_call f s) = files s
       \<and> toasts (handleFileUpload f r s) = toasts s @
            [\<lparr>title = ''Upload failed'',
              description = (case r of
                               Resolved x \<Rightarrow> ''File upload failed''
                             | Rejected (Error msg) \<Rightarrow> msg
                             | Rejected NonError \<Rightarrow> ''Failed to upload file''),
              variant = Some ''destructive''\<rparr>]
       \<and> requests (handleFileUpload f r s) = requests s @ [UploadFile f (clientId s)]"
  using assms
  by (auto simp add: handleFileUpload_def handleFileUpload_resume_def handleFileUpload_call_def
        handleFileUpload_catch_def files_def filesKey_def split: thrown.splits)

theorem upload_failure_reported_witness:
  "files (handleFileUpload \<lparr>name = ''a.pdf'', file_size = 10\<rparr>
            (Rejected (Error ''backend down'')) ClientPortal_init)
   = files ClientPortal_init
   \<and> toasts (handleFileUpload \<lparr>name = ''a.pdf'', file_size = 10\<rparr>
               (Rejected (Error ''backend down'')) ClientPortal_init)
     = toasts ClientPortal_init @
         [\<lparr>title = ''Upload failed'', description = ''backend down'',
           variant = Some ''destructive''\<rparr>]
   \<and> requests (handleFileUpload \<lparr>name = ''a.pdf'', file_size = 10\<rparr>
                 (Rejected (Error ''backend down'')) ClientPortal_init)
     = requests ClientPortal_init @
         [UploadFile \<lparr>name = ''a.pdf'', file_size = 10\<rparr> (clientId ClientPortal_init)]"
  using upload_failure_reported
    [of "Rejected (Error ''backend down'')" "Error ''backend down''"
        "\<lparr>name = ''a.pdf'', file_size = 10\<rparr>" ClientPortal_init]
  by simp

end
